theory Spec2Isabelle
  imports Main
begin

section \<open>Data model\<close>

text \<open>
  The pipeline of \<^verbatim>\<open>src/etl_pipeline.py\<close> works on data frames. A frame is modelled as
  the list of its rows, in row order; the row label of a frame read from the workbook is
  its position (a fresh range index). A cell that may be missing (NaN, None, NaT) has an
  option type, \<open>None\<close> being the missing value.

  A timestamp is the number of nanoseconds since the epoch, a calendar date the number of
  days since the epoch, both as unbounded integers: the limits of the library's 64-bit
  timestamp range are not modelled.
\<close>

type_synonym timestamp = int
type_synonym date = int

datatype error = IndexError | ValueError | KeyError | OperationalError

record accident =
  AccidentID :: "int option"
  ReportedAt :: "timestamp option"
  Location :: "string option"
  VehiclesInvolved :: "int option"
  Severity :: "string option"

record vehicle =
  VehicleID :: "int option"
  VehicleType :: "string option"

record road_condition =
  ConditionID :: "int option"
  cond_Location :: "string option"
  RecordedAt :: "timestamp option"
  Surface :: "string option"
  Visibility :: "string option"

record dim_location =
  LocationID :: int
  LocationName :: "string option"

record dim_road_condition =
  dim_ConditionID :: "int option"
  dim_Surface :: "string option"
  dim_Visibility :: "string option"

record dim_date =
  DateID :: int
  Date :: "date option"
  Month :: "int option"
  Year :: "int option"
  Time :: "timestamp option"

record fact_accident =
  fact_AccidentID :: int
  fact_DateID :: "int option"
  fact_LocationID :: "int option"
  fact_VehicleID :: int
  fact_RoadConditionID :: "int option"
  fact_VehiclesInvolved :: "int option"
  SeverityScore :: int

text \<open>
  The sink behind the engine: the five tables. Every builder writes its table with
  \<^verbatim>\<open>to_sql(..., if_exists='replace')\<close>, which replaces the whole table.
\<close>

record engine =
  Dim_Location :: "dim_location list"
  Dim_Vehicle :: "vehicle list"
  Dim_RoadCondition :: "dim_road_condition list"
  Dim_Date :: "dim_date list"
  Fact_Accidents :: "fact_accident list"

definition initial_engine :: engine where
  "initial_engine =
     \<lparr>Dim_Location = [], Dim_Vehicle = [], Dim_RoadCondition = [], Dim_Date = [],
      Fact_Accidents = []\<rparr>"

section \<open>Library operations on columns\<close>

text \<open>
  \<^verbatim>\<open>Series.unique()\<close> and \<^verbatim>\<open>Series.drop_duplicates()\<close> make one pass over the column
  with a table of the values seen so far and keep a value the first time it shows up.
  A missing value is a value like any other here: it is kept once.
\<close>

fun unique_from :: "'a list \<Rightarrow> 'a list \<Rightarrow> 'a list" where
  "unique_from seen [] = []"
| "unique_from seen (x # xs) =
     (if x \<in> set seen then unique_from seen xs else x # unique_from (x # seen) xs)"

definition unique :: "'a list \<Rightarrow> 'a list" where
  "unique xs = unique_from [] xs"

definition drop_duplicates :: "'a list \<Rightarrow> 'a list" where
  "drop_duplicates xs = unique_from [] xs"

text \<open>
  The words of the specification, "the distinct values in order of first appearance":
  the entries of the column at the positions where the value has not occurred before.
\<close>

definition first_appearances :: "'a list \<Rightarrow> 'a list" where
  "first_appearances xs =
     map (\<lambda>i. xs ! i) (filter (\<lambda>i. xs ! i \<notin> set (take i xs)) [0..<length xs])"

text \<open>\<^verbatim>\<open>range(1, n + 1)\<close>.\<close>

definition range1 :: "nat \<Rightarrow> int list" where
  "range1 n = [1..int n]"

text \<open>
  The calendar of the library: \<^verbatim>\<open>.dt.date\<close> is the day a timestamp falls on,
  \<^verbatim>\<open>pd.to_datetime\<close> of a date is that day at midnight, and \<^verbatim>\<open>.dt.year\<close>,
  \<^verbatim>\<open>.dt.month\<close> read the proleptic Gregorian calendar.
\<close>

definition NS_PER_DAY :: int where
  "NS_PER_DAY = 86400000000000"

definition dt_date :: "timestamp \<Rightarrow> date" where
  "dt_date t = t div NS_PER_DAY"

definition to_datetime_date :: "date \<Rightarrow> timestamp" where
  "to_datetime_date d = d * NS_PER_DAY"

definition civil_from_days :: "int \<Rightarrow> int \<times> int \<times> int" where
  "civil_from_days z0 =
     (let z = z0 + 719468;
          era = z div 146097;
          doe = z mod 146097;
          yoe = (doe - doe div 1460 + doe div 36524 - doe div 146096) div 365;
          y = yoe + era * 400;
          doy = doe - (365 * yoe + yoe div 4 - yoe div 100);
          mp = (5 * doy + 2) div 153;
          d = doy - (153 * mp + 2) div 5 + 1;
          m = (if mp < 10 then mp + 3 else mp - 9)
      in (if m \<le> 2 then y + 1 else y, m, d))"

definition date_year :: "date \<Rightarrow> int" where
  "date_year d = fst (civil_from_days d)"

definition date_month :: "date \<Rightarrow> int" where
  "date_month d = fst (snd (civil_from_days d))"

definition dt_year :: "timestamp \<Rightarrow> int" where
  "dt_year t = date_year (dt_date t)"

definition dt_month :: "timestamp \<Rightarrow> int" where
  "dt_month t = date_month (dt_date t)"

section \<open>Dimension builders\<close>

text \<open>
  \<^verbatim>\<open>populate_dim_location(accidents_df, engine)\<close>: the distinct values of the Location
  column, numbered from 1, written to the sink and returned. The function has no raise of
  its own; the result is a sum so that failing and returning can be told apart.
\<close>

definition populate_dim_location ::
  "accident list \<Rightarrow> engine \<Rightarrow> error + (dim_location list \<times> engine)" where
  "populate_dim_location accidents_df eng =
     (let names = unique (map Location accidents_df);
          dim_location_df =
            map (\<lambda>(i, n). \<lparr>LocationID = i, LocationName = n\<rparr>)
              (zip (range1 (length names)) names)
      in Inr (dim_location_df, eng\<lparr>Dim_Location := dim_location_df\<rparr>))"

text \<open>
  \<^verbatim>\<open>populate_dim_vehicle\<close>: the two columns, without the rows that have a missing cell
  (\<^verbatim>\<open>dropna()\<close>).
\<close>

definition populate_dim_vehicle ::
  "vehicle list \<Rightarrow> engine \<Rightarrow> error + (vehicle list \<times> engine)" where
  "populate_dim_vehicle vehicles_df eng =
     (let dim_vehicle_df =
            filter (\<lambda>v. VehicleID v \<noteq> None \<and> VehicleType v \<noteq> None)
              (map (\<lambda>v. \<lparr>VehicleID = VehicleID v, VehicleType = VehicleType v\<rparr>) vehicles_df)
      in Inr (dim_vehicle_df, eng\<lparr>Dim_Vehicle := dim_vehicle_df\<rparr>))"

text \<open>\<^verbatim>\<open>populate_dim_road_condition\<close>: three columns, rows with a missing cell dropped.\<close>

definition populate_dim_road_condition ::
  "road_condition list \<Rightarrow> engine \<Rightarrow> error + (dim_road_condition list \<times> engine)" where
  "populate_dim_road_condition road_conditions_df eng =
     (let dim_road_condition_df =
            filter (\<lambda>c. dim_ConditionID c \<noteq> None \<and> dim_Surface c \<noteq> None \<and> dim_Visibility c \<noteq> None)
              (map (\<lambda>c. \<lparr>dim_ConditionID = ConditionID c, dim_Surface = Surface c,
                          dim_Visibility = Visibility c\<rparr>) road_conditions_df)
      in Inr (dim_road_condition_df, eng\<lparr>Dim_RoadCondition := dim_road_condition_df\<rparr>))"

text \<open>
  \<^verbatim>\<open>populate_dim_date\<close>. \<^verbatim>\<open>unique_dates\<close> is the column of calendar dates without
  repetitions; \<^verbatim>\<open>unique_dates_dt\<close> converts these dates back to timestamps. Month, Year
  and Time are all read from \<^verbatim>\<open>unique_dates_dt\<close>. (\<^verbatim>\<open>pd.to_datetime\<close> of the ReportedAt
  column, already a timestamp column, leaves it as it is.)
\<close>

definition populate_dim_date ::
  "accident list \<Rightarrow> engine \<Rightarrow> error + (dim_date list \<times> engine)" where
  "populate_dim_date accidents_df eng =
     (let unique_dates = drop_duplicates (map (\<lambda>a. map_option dt_date (ReportedAt a)) accidents_df);
          unique_dates_dt = map (map_option to_datetime_date) unique_dates;
          dim_date_df =
            map (\<lambda>(i, d, dt). \<lparr>DateID = i, Date = d, Month = map_option dt_month dt,
                               Year = map_option dt_year dt, Time = dt\<rparr>)
              (zip (range1 (length unique_dates)) (zip unique_dates unique_dates_dt))
      in Inr (dim_date_df, eng\<lparr>Dim_Date := dim_date_df\<rparr>))"

section \<open>Timestamp normalisation\<close>

text \<open>
  \<^verbatim>\<open>convert_timestamps(df, column)\<close> works on any frame and any column name, so here
  a frame is a dictionary from column names to columns of raw cells. \<^verbatim>\<open>df[column]\<close>
  raises KeyError for a name that is no column. \<^verbatim>\<open>pd.to_datetime(..., errors='coerce')\<close>
  is one call into the library on the whole column: which cells it reads as timestamps,
  which it turns into NaT, and whether it raises, is decided there, so the call is a
  parameter, \<open>to_datetime\<close>, from a column to an error or the converted column. What the
  call raises the source logs and raises again. The source assigns the column in place
  and returns the frame; the model returns the new frame.
\<close>

datatype cell = NaT | Text string | Number int | Timestamp timestamp

type_synonym frame = "string \<rightharpoonup> cell list"

definition convert_timestamps ::
  "(cell list \<Rightarrow> error + cell list) \<Rightarrow> frame \<Rightarrow> string \<Rightarrow> error + frame" where
  "convert_timestamps to_datetime df column =
     (case df column of
        None \<Rightarrow> Inl KeyError
      | Some cells \<Rightarrow>
          (case to_datetime cells of
             Inl e \<Rightarrow> Inl e
           | Inr converted \<Rightarrow> Inr (df(column \<mapsto> converted))))"

section \<open>Fact builder\<close>

text \<open>
  \<^verbatim>\<open>DataFrame.merge(..., how='left')\<close> on one key column: the rows of the left frame in
  their order, each paired with every row of the right frame that has the same key, in the
  right frame's order, or with nothing when no right row has that key. Missing keys match
  each other.
\<close>

definition merge_left ::
  "'l list \<Rightarrow> 'r list \<Rightarrow> ('l \<Rightarrow> 'k) \<Rightarrow> ('r \<Rightarrow> 'k) \<Rightarrow> ('l \<times> 'r option) list" where
  "merge_left left right left_on right_on =
     concat (map (\<lambda>l. case filter (\<lambda>r. right_on r = left_on l) right of
                         [] \<Rightarrow> [(l, None)]
                       | ms \<Rightarrow> map (\<lambda>r. (l, Some r)) ms) left)"

text \<open>
  A row of \<^verbatim>\<open>accidents_with_location\<close>, with the columns the loop reads later (the key
  columns ReportedAt\_Date, Date and LocationName are carried by the source and not read
  again).
\<close>

record merged_row =
  m_AccidentID :: "int option"
  m_ReportedAt :: "timestamp option"
  m_Location :: "string option"
  m_VehiclesInvolved :: "int option"
  m_Severity :: "string option"
  m_DateID :: "int option"
  m_LocationID :: "int option"

definition accidents_with_location ::
  "accident list \<Rightarrow> dim_location list \<Rightarrow> dim_date list \<Rightarrow> merged_row list" where
  "accidents_with_location accidents_df dim_location_df dim_date_df =
     (let accidents_with_date =
            merge_left accidents_df dim_date_df (\<lambda>a. map_option dt_date (ReportedAt a)) Date
      in map (\<lambda>((a, d), l).
                \<lparr>m_AccidentID = AccidentID a, m_ReportedAt = ReportedAt a,
                 m_Location = Location a, m_VehiclesInvolved = VehiclesInvolved a,
                 m_Severity = Severity a, m_DateID = map_option DateID d,
                 m_LocationID = map_option LocationID l\<rparr>)
           (merge_left accidents_with_date dim_location_df (\<lambda>(a, d). Location a) LocationName))"

text \<open>
  \<^verbatim>\<open>groupby('AccidentID').first().reset_index()\<close>: one row per key, the keys sorted,
  rows with a missing key left out, and in every other column the first value of the
  group that is not missing.
\<close>

fun first_valid :: "'a option list \<Rightarrow> 'a option" where
  "first_valid [] = None"
| "first_valid (None # xs) = first_valid xs"
| "first_valid (Some x # xs) = Some x"

record grouped_row =
  g_AccidentID :: int
  g_ReportedAt :: "timestamp option"
  g_Location :: "string option"
  g_VehiclesInvolved :: "int option"
  g_Severity :: "string option"
  g_DateID :: "int option"
  g_LocationID :: "int option"

definition groupby_first :: "merged_row list \<Rightarrow> grouped_row list" where
  "groupby_first rows =
     map (\<lambda>k. let grp = filter (\<lambda>r. m_AccidentID r = Some k) rows
               in \<lparr>g_AccidentID = k,
                   g_ReportedAt = first_valid (map m_ReportedAt grp),
                   g_Location = first_valid (map m_Location grp),
                   g_VehiclesInvolved = first_valid (map m_VehiclesInvolved grp),
                   g_Severity = first_valid (map m_Severity grp),
                   g_DateID = first_valid (map m_DateID grp),
                   g_LocationID = first_valid (map m_LocationID grp)\<rparr>)
       (sort (remdups (List.map_filter m_AccidentID rows)))"

text \<open>
  The random source: the sequence of raw draws still to come. \<^verbatim>\<open>random.randint(a, b)\<close>
  takes one draw and returns an integer \<open>N\<close> with \<open>a \<le> N \<le> b\<close>; every such \<open>N\<close> is the
  result for some draw.
\<close>

type_synonym rng = "nat \<Rightarrow> nat"

definition randint :: "int \<Rightarrow> int \<Rightarrow> rng \<Rightarrow> int \<times> rng" where
  "randint a b g = (a + int (g 0) mod (b - a + 1), \<lambda>i. g (Suc i))"

text \<open>
  The nearest road condition. \<^verbatim>\<open>matching_conditions\<close> keeps the row labels of
  \<^verbatim>\<open>road_conditions_df\<close>; \<^verbatim>\<open>idxmin()\<close> returns the label of the first smallest
  difference that is not missing (and fails when all are missing); \<^verbatim>\<open>.iloc[...]\<close> then
  reads \<^verbatim>\<open>matching_conditions\<close> by position and fails out of range.
\<close>

definition matching_conditions :: "road_condition list \<Rightarrow> string \<Rightarrow> (nat \<times> road_condition) list" where
  "matching_conditions road_conditions_df accident_location =
     filter (\<lambda>(i, c). cond_Location c = Some accident_location)
       (zip [0..<length road_conditions_df] road_conditions_df)"

definition time_diffs :: "(nat \<times> road_condition) list \<Rightarrow> timestamp \<Rightarrow> (nat \<times> int option) list" where
  "time_diffs matching reported_at =
     map (\<lambda>(i, c). (i, map_option (\<lambda>t. \<bar>t - reported_at\<bar>) (RecordedAt c))) matching"

fun idxmin_from :: "nat \<times> int \<Rightarrow> (nat \<times> int option) list \<Rightarrow> nat" where
  "idxmin_from (bi, bv) [] = bi"
| "idxmin_from (bi, bv) ((i, None) # s) = idxmin_from (bi, bv) s"
| "idxmin_from (bi, bv) ((i, Some v) # s) =
     (if v < bv then idxmin_from (i, v) s else idxmin_from (bi, bv) s)"

fun idxmin :: "(nat \<times> int option) list \<Rightarrow> error + nat" where
  "idxmin [] = Inl ValueError"
| "idxmin ((i, None) # s) = idxmin s"
| "idxmin ((i, Some v) # s) = Inr (idxmin_from (i, v) s)"

definition iloc :: "'a list \<Rightarrow> nat \<Rightarrow> error + 'a" where
  "iloc df pos = (if pos < length df then Inr (df ! pos) else Inl IndexError)"

definition road_condition_id ::
  "road_condition list \<Rightarrow> string \<Rightarrow> timestamp \<Rightarrow> rng \<Rightarrow> error + (int option \<times> rng)" where
  "road_condition_id road_conditions_df accident_location reported_at g =
     (let matching = matching_conditions road_conditions_df accident_location
      in if matching \<noteq> [] then
           (case idxmin (time_diffs matching reported_at) of
              Inl e \<Rightarrow> Inl e
            | Inr label \<Rightarrow>
                (case iloc matching label of
                   Inl e \<Rightarrow> Inl e
                 | Inr closest_match \<Rightarrow> Inr (ConditionID (snd closest_match), g)))
         else (case randint 1 100 g of (n, g') \<Rightarrow> Inr (Some n, g')))"

text \<open>\<^verbatim>\<open>severity_map.get(row['Severity'], 1)\<close>.\<close>

definition severity_map :: "string \<rightharpoonup> int" where
  "severity_map = [''Minor'' \<mapsto> 1, ''Moderate'' \<mapsto> 2, ''Severe'' \<mapsto> 3]"

definition severity_score :: "string option \<Rightarrow> int" where
  "severity_score s =
     (case s of None \<Rightarrow> 1
      | Some k \<Rightarrow> (case severity_map k of None \<Rightarrow> 1 | Some v \<Rightarrow> v))"

text \<open>
  One pass of the loop body: nothing for a row without ReportedAt or Location
  (\<^verbatim>\<open>continue\<close>), else the fact row; the random source is threaded through.
\<close>

definition fact_row ::
  "road_condition list \<Rightarrow> grouped_row \<Rightarrow> rng \<Rightarrow> error + (fact_accident option \<times> rng)" where
  "fact_row road_conditions_df row g =
     (case (g_ReportedAt row, g_Location row) of
        (Some reported_at, Some accident_location) \<Rightarrow>
          (case randint 1 200 g of
             (vehicle_id, g1) \<Rightarrow>
               (case road_condition_id road_conditions_df accident_location reported_at g1 of
                  Inl e \<Rightarrow> Inl e
                | Inr (rc_id, g2) \<Rightarrow>
                    Inr (Some \<lparr>fact_AccidentID = g_AccidentID row,
                               fact_DateID = g_DateID row,
                               fact_LocationID = g_LocationID row,
                               fact_VehicleID = vehicle_id,
                               fact_RoadConditionID = rc_id,
                               fact_VehiclesInvolved = g_VehiclesInvolved row,
                               SeverityScore = severity_score (g_Severity row)\<rparr>, g2)))
      | _ \<Rightarrow> Inr (None, g))"

fun fact_accidents_data ::
  "road_condition list \<Rightarrow> grouped_row list \<Rightarrow> rng \<Rightarrow> error + (fact_accident list \<times> rng)" where
  "fact_accidents_data road_conditions_df [] g = Inr ([], g)"
| "fact_accidents_data road_conditions_df (row # rows) g =
     (case fact_row road_conditions_df row g of
        Inl e \<Rightarrow> Inl e
      | Inr (None, g') \<Rightarrow> fact_accidents_data road_conditions_df rows g'
      | Inr (Some f, g') \<Rightarrow>
          (case fact_accidents_data road_conditions_df rows g' of
             Inl e \<Rightarrow> Inl e
           | Inr (fs, g'') \<Rightarrow> Inr (f # fs, g'')))"

text \<open>
  \<^verbatim>\<open>populate_fact_accidents\<close>: the two joins, the grouping, the loop, and the write of
  the table. The function returns nothing; the model returns the sink and the random
  source as they are left. An exception leaves the loop before the table is written.
  When the loop has emitted no row, \<^verbatim>\<open>pd.DataFrame([])\<close> is a frame without columns
  and \<^verbatim>\<open>to_sql\<close> raises (the sink refuses a table without columns), so the run ends
  with an OperationalError.
  (The log lines, and the column the function adds to the caller's frame, are left out.)
\<close>

definition populate_fact_accidents ::
  "accident list \<Rightarrow> dim_location list \<Rightarrow> dim_date list \<Rightarrow> road_condition list \<Rightarrow>
   engine \<Rightarrow> rng \<Rightarrow> error + (engine \<times> rng)" where
  "populate_fact_accidents accidents_df dim_location_df dim_date_df road_conditions_df eng g =
     (case fact_accidents_data road_conditions_df
             (groupby_first (accidents_with_location accidents_df dim_location_df dim_date_df)) g of
        Inl e \<Rightarrow> Inl e
      | Inr (fact_accidents_df, g') \<Rightarrow>
          (if fact_accidents_df = [] then Inl OperationalError
           else Inr (eng\<lparr>Fact_Accidents := fact_accidents_df\<rparr>, g')))"

section \<open>Columns without repetitions\<close>

text \<open>
  The pass that drops repeated values keeps exactly the entries that have not occurred
  before, so it computes the distinct values in order of first appearance.
\<close>

lemma unique_from_index:
  "unique_from seen xs =
     map (\<lambda>i. xs ! i) (filter (\<lambda>i. xs ! i \<notin> set seen \<union> set (take i xs)) [0..<length xs])"
proof (induction xs arbitrary: seen)
  case Nil
  then show ?case by simp
next
  case (Cons x xs)
  have shift: "[0..<length (x # xs)] = 0 # map Suc [0..<length xs]"
    by (simp add: upt_conv_Cons map_Suc_upt del: upt_Suc)
  show ?case
  proof (cases "x \<in> set seen")
    case True
    then have "(\<lambda>i. xs ! i \<notin> set seen \<and> xs ! i \<noteq> x \<and> xs ! i \<notin> set (take i xs)) =
               (\<lambda>i. xs ! i \<notin> set seen \<and> xs ! i \<notin> set (take i xs))"
      by auto
    with True show ?thesis
      unfolding shift by (simp add: Cons.IH filter_map comp_def)
  next
    case False
    have "(\<lambda>i. xs ! i \<noteq> x \<and> xs ! i \<notin> set seen \<and> xs ! i \<notin> set (take i xs)) =
          (\<lambda>i. xs ! i \<notin> set seen \<and> xs ! i \<noteq> x \<and> xs ! i \<notin> set (take i xs))"
      by auto
    with False show ?thesis
      unfolding shift by (simp add: Cons.IH filter_map comp_def)
  qed
qed

lemma set_unique_from: "set (unique_from seen xs) = set xs - set seen"
  by (induction xs arbitrary: seen) auto

lemma distinct_unique_from: "distinct (unique_from seen xs)"
  by (induction xs arbitrary: seen) (auto simp: set_unique_from)

lemma unique_first_appearances: "unique xs = first_appearances xs"
  by (simp add: unique_def first_appearances_def unique_from_index)

lemma length_unique: "length (unique xs) = card (set xs)"
proof -
  have "card (set (unique xs)) = length (unique xs)"
    unfolding unique_def by (rule distinct_card [OF distinct_unique_from])
  then show ?thesis by (simp add: unique_def set_unique_from)
qed

lemma length_range1: "length (range1 n) = n"
  by (simp add: range1_def)

lemma map_fst_zip_range1: "length ys = n \<Longrightarrow> map fst (zip (range1 n) ys) = range1 n"
  by (simp add: length_range1)

lemma map_snd_zip_range1: "length ys = n \<Longrightarrow> map snd (zip (range1 n) ys) = ys"
  by (simp add: length_range1)

section \<open>The location dimension\<close>

text \<open>
  Claim C4. For every accident batch, \<^verbatim>\<open>populate_dim_location\<close> returns (and writes to
  the sink) a table whose LocationID column is the contiguous range \<open>1..n\<close>, \<open>n\<close> being the
  number of distinct values of the Location column, and whose LocationName column lists
  the distinct values of the Location column in order of first appearance, each once.
  A missing Location is a value of the column and is listed once like the others.
\<close>

theorem populate_dim_location_ids_names:
  "\<exists>df eng'. populate_dim_location accidents_df eng = Inr (df, eng')
      \<and> Dim_Location eng' = df
      \<and> map LocationID df = [1..int (card (Location ` set accidents_df))]
      \<and> map LocationName df = first_appearances (map Location accidents_df)
      \<and> distinct (map LocationName df)
      \<and> set (map LocationName df) = Location ` set accidents_df"
proof -
  define names where "names = unique (map Location accidents_df)"
  define df where
    "df = map (\<lambda>(i, n). \<lparr>LocationID = i, LocationName = n\<rparr>) (zip (range1 (length names)) names)"
  have run: "populate_dim_location accidents_df eng = Inr (df, eng\<lparr>Dim_Location := df\<rparr>)"
    by (simp add: populate_dim_location_def Let_def df_def names_def)
  have ids: "map LocationID df = range1 (length names)"
    by (simp add: df_def comp_def case_prod_unfold map_fst_zip_range1)
  have nms: "map LocationName df = names"
    by (simp add: df_def comp_def case_prod_unfold map_snd_zip_range1)
  have len: "length names = card (Location ` set accidents_df)"
    by (simp add: names_def length_unique)
  have dist: "distinct names"
    by (simp add: names_def unique_def distinct_unique_from)
  have st: "set names = Location ` set accidents_df"
    by (simp add: names_def unique_def set_unique_from)
  have "Dim_Location (eng\<lparr>Dim_Location := df\<rparr>) = df"
    by simp
  moreover have "map LocationID df = [1..int (card (Location ` set accidents_df))]"
    unfolding ids len by (simp add: range1_def)
  moreover have "map LocationName df = first_appearances (map Location accidents_df)"
    unfolding nms by (simp add: names_def unique_first_appearances)
  moreover have "distinct (map LocationName df)"
    unfolding nms by (rule dist)
  moreover have "set (map LocationName df) = Location ` set accidents_df"
    unfolding nms by (rule st)
  ultimately show ?thesis
    using run by (intro exI [of _ df] exI [of _ "eng\<lparr>Dim_Location := df\<rparr>"]) simp
qed

text \<open>
  Claim C8 (as the specification states it): on an empty accident batch the builder fails
  with an EmptyInputError. The source has no such check: on the empty batch the builder
  returns normally.
\<close>

theorem populate_dim_location_empty_counterexample:
  "\<not> isl (populate_dim_location [] initial_engine)"
  by (simp add: populate_dim_location_def unique_def range1_def)

text \<open>
  Claim C8, amended. On an empty accident batch \<^verbatim>\<open>populate_dim_location\<close> returns
  normally: it returns the empty table and replaces the Dim\_Location table of the sink
  by the empty table.
\<close>

theorem populate_dim_location_empty:
  "populate_dim_location [] eng = Inr ([], eng\<lparr>Dim_Location := []\<rparr>)"
  by (simp add: populate_dim_location_def unique_def range1_def)

section \<open>The date dimension\<close>

lemma dt_date_to_datetime_date: "dt_date (to_datetime_date d) = d"
  by (simp add: dt_date_def to_datetime_date_def NS_PER_DAY_def)

lemma zip_with_derived:
  "zip xs (zip ds (map f ds)) = map (\<lambda>(i, d). (i, d, f d)) (zip xs ds)"
proof -
  have "zip ds (map f ds) = map (\<lambda>d. (d, f d)) ds"
    by (induction ds) auto
  then show ?thesis
    by (simp add: zip_map2 case_prod_unfold)
qed

lemma populate_dim_date_unfold:
  "populate_dim_date accidents_df eng =
     (let ds = drop_duplicates (map (\<lambda>a. map_option dt_date (ReportedAt a)) accidents_df);
          df = map (\<lambda>(i, d). \<lparr>DateID = i, Date = d,
                                 Month = map_option dt_month (map_option to_datetime_date d),
                                 Year = map_option dt_year (map_option to_datetime_date d),
                                 Time = map_option to_datetime_date d\<rparr>)
                 (zip (range1 (length ds)) ds)
      in Inr (df, eng\<lparr>Dim_Date := df\<rparr>))"
  unfolding populate_dim_date_def Let_def zip_with_derived
  by (simp add: comp_def case_prod_unfold)

text \<open>
  Claim C5. For every accident batch, \<^verbatim>\<open>populate_dim_date\<close> returns (and writes to the
  sink) one row per distinct calendar date of the ReportedAt column: the Date column
  lists the dates in order of first appearance, each once; the DateID column is
  \<open>1, 2, \<dots>\<close> up to the number of rows; and in every row Month and Year are the month
  and the year of the row's own Date. The date of a missing ReportedAt is missing, and
  the missing date is listed once like the others, with Month and Year missing.
\<close>

theorem populate_dim_date_rows:
  "\<exists>df eng'. populate_dim_date accidents_df eng = Inr (df, eng')
      \<and> Dim_Date eng' = df
      \<and> map Date df = first_appearances (map (\<lambda>a. map_option dt_date (ReportedAt a)) accidents_df)
      \<and> distinct (map Date df)
      \<and> set (map Date df) = (\<lambda>a. map_option dt_date (ReportedAt a)) ` set accidents_df
      \<and> map DateID df = [1..int (length df)]
      \<and> list_all (\<lambda>r. Month r = map_option date_month (Date r)
                     \<and> Year r = map_option date_year (Date r)) df"
proof -
  define ds where "ds = drop_duplicates (map (\<lambda>a. map_option dt_date (ReportedAt a)) accidents_df)"
  define df where
    "df = map (\<lambda>(i, d). \<lparr>DateID = i, Date = d,
                            Month = map_option dt_month (map_option to_datetime_date d),
                            Year = map_option dt_year (map_option to_datetime_date d),
                            Time = map_option to_datetime_date d\<rparr>)
              (zip (range1 (length ds)) ds)"
  have run: "populate_dim_date accidents_df eng = Inr (df, eng\<lparr>Dim_Date := df\<rparr>)"
    by (simp add: populate_dim_date_unfold Let_def df_def ds_def)
  have len: "length df = length ds"
    by (simp add: df_def length_range1)
  have ids: "map DateID df = range1 (length ds)"
    by (simp add: df_def comp_def case_prod_unfold map_fst_zip_range1)
  have dates: "map Date df = ds"
    by (simp add: df_def comp_def case_prod_unfold map_snd_zip_range1)
  have fa: "ds = first_appearances (map (\<lambda>a. map_option dt_date (ReportedAt a)) accidents_df)"
    by (simp add: ds_def drop_duplicates_def unique_first_appearances [unfolded unique_def])
  have dist: "distinct ds"
    by (simp add: ds_def drop_duplicates_def distinct_unique_from)
  have st: "set ds = (\<lambda>a. map_option dt_date (ReportedAt a)) ` set accidents_df"
    by (simp add: ds_def drop_duplicates_def set_unique_from)
  have "Dim_Date (eng\<lparr>Dim_Date := df\<rparr>) = df"
    by simp
  moreover have "map Date df =
      first_appearances (map (\<lambda>a. map_option dt_date (ReportedAt a)) accidents_df)"
    unfolding dates by (rule fa)
  moreover have "distinct (map Date df)"
    unfolding dates by (rule dist)
  moreover have "set (map Date df) = (\<lambda>a. map_option dt_date (ReportedAt a)) ` set accidents_df"
    unfolding dates by (rule st)
  moreover have "map DateID df = [1..int (length df)]"
    unfolding ids len by (simp add: range1_def)
  moreover have "list_all (\<lambda>r. Month r = map_option date_month (Date r)
                     \<and> Year r = map_option date_year (Date r)) df"
    by (auto simp: df_def list_all_iff dt_month_def dt_year_def dt_date_to_datetime_date
        option.map_comp comp_def)
  ultimately show ?thesis
    using run by (intro exI [of _ df] exI [of _ "eng\<lparr>Dim_Date := df\<rparr>"]) simp
qed

text \<open>
  The Time column is read from \<^verbatim>\<open>unique_dates_dt\<close>, the dates converted back to
  timestamps: in every row it is midnight of the row's Date, whatever the time of day of
  the accidents reported on that date.
\<close>

lemma populate_dim_date_time_is_midnight:
  "populate_dim_date accidents_df eng = Inr (df, eng') \<Longrightarrow> r \<in> set df \<Longrightarrow>
     Time r = map_option to_datetime_date (Date r)"
  by (auto simp: populate_dim_date_unfold Let_def)

lemma civil_from_days_19787: "civil_from_days 19787 = (2024, 3, 5)"
  unfolding civil_from_days_def Let_def by simp

text \<open>
  Claim C3 says that Time is the full timestamp first observed for the row's date, not
  that timestamp truncated to midnight. The source does not do that. For the single
  accident reported at 2024-03-05 14:30:00 (1709649000 seconds after the epoch) the
  builder returns the row with Time 2024-03-05 00:00:00 (1709596800 seconds after the
  epoch).
\<close>

theorem populate_dim_date_time_truncated:
  "populate_dim_date
     [\<lparr>AccidentID = Some 1, ReportedAt = Some 1709649000000000000, Location = Some ''Main St'',
       VehiclesInvolved = Some 2, Severity = Some ''Minor''\<rparr>] initial_engine =
   Inr ([\<lparr>DateID = 1, Date = Some 19787, Month = Some 3, Year = Some 2024,
          Time = Some 1709596800000000000\<rparr>],
        initial_engine\<lparr>Dim_Date :=
          [\<lparr>DateID = 1, Date = Some 19787, Month = Some 3, Year = Some 2024,
            Time = Some 1709596800000000000\<rparr>]\<rparr>)"
  by (simp add: populate_dim_date_def drop_duplicates_def range1_def dt_date_def
      to_datetime_date_def NS_PER_DAY_def dt_month_def dt_year_def date_month_def date_year_def
      civil_from_days_19787 Let_def)

section \<open>Determinism of the dimension builders\<close>

text \<open>
  Claim C9. Each of the four dimension builders, run twice on the same input batch,
  returns the same table both times and leaves the same table in the sink, surrogate ids
  included, whatever the sink held before each run. No builder takes the random source.
\<close>

theorem dimension_builders_deterministic:
  "(\<exists>df e1' e2'. populate_dim_location accidents_df e1 = Inr (df, e1')
        \<and> populate_dim_location accidents_df e2 = Inr (df, e2')
        \<and> Dim_Location e1' = df \<and> Dim_Location e2' = df)
   \<and> (\<exists>df e1' e2'. populate_dim_vehicle vehicles_df e1 = Inr (df, e1')
        \<and> populate_dim_vehicle vehicles_df e2 = Inr (df, e2')
        \<and> Dim_Vehicle e1' = df \<and> Dim_Vehicle e2' = df)
   \<and> (\<exists>df e1' e2'. populate_dim_road_condition road_conditions_df e1 = Inr (df, e1')
        \<and> populate_dim_road_condition road_conditions_df e2 = Inr (df, e2')
        \<and> Dim_RoadCondition e1' = df \<and> Dim_RoadCondition e2' = df)
   \<and> (\<exists>df e1' e2'. populate_dim_date accidents_df e1 = Inr (df, e1')
        \<and> populate_dim_date accidents_df e2 = Inr (df, e2')
        \<and> Dim_Date e1' = df \<and> Dim_Date e2' = df)"
  by (simp add: populate_dim_location_def populate_dim_vehicle_def
      populate_dim_road_condition_def populate_dim_date_def Let_def)

section \<open>The fact table\<close>

subsection \<open>The loop body and the loop\<close>

lemma randint_range:
  "a \<le> b \<Longrightarrow> randint a b g = (n, g') \<Longrightarrow> a \<le> n \<and> n \<le> b"
proof -
  assume ab: "a \<le> b" and r: "randint a b g = (n, g')"
  have n: "n = a + int (g 0) mod (b - a + 1)"
    using r by (simp add: randint_def)
  have pos: "0 < b - a + 1"
    using ab by simp
  have "0 \<le> int (g 0) mod (b - a + 1)"
    using pos by (rule pos_mod_sign)
  moreover have "int (g 0) mod (b - a + 1) < b - a + 1"
    using pos by (rule pos_mod_bound)
  ultimately show ?thesis
    using n by linarith
qed

lemma map_snd_filter_snd:
  "map snd (filter (\<lambda>p. P (snd p)) zs) = filter P (map snd zs)"
  by (induction zs) auto

lemma map_snd_matching_conditions:
  "map snd (matching_conditions road_conditions_df loc) =
     filter (\<lambda>c. cond_Location c = Some loc) road_conditions_df"
  by (simp add: matching_conditions_def case_prod_unfold
      map_snd_filter_snd [where P = "\<lambda>c. cond_Location c = Some loc"])

lemma matching_conditions_empty:
  "matching_conditions road_conditions_df loc = [] \<longleftrightarrow>
     list_all (\<lambda>c. cond_Location c \<noteq> Some loc) road_conditions_df"
proof -
  have "matching_conditions road_conditions_df loc = [] \<longleftrightarrow>
        map snd (matching_conditions road_conditions_df loc) = []"
    by simp
  also have "\<dots> \<longleftrightarrow> list_all (\<lambda>c. cond_Location c \<noteq> Some loc) road_conditions_df"
    unfolding map_snd_matching_conditions by (simp add: filter_empty_conv list_all_iff)
  finally show ?thesis .
qed

lemma road_condition_id_fallback:
  "matching_conditions road_conditions_df loc = [] \<Longrightarrow>
   road_condition_id road_conditions_df loc t g = Inr (rc, g') \<Longrightarrow>
   \<exists>n. rc = Some n \<and> 1 \<le> n \<and> n \<le> 100"
  by (auto simp: road_condition_id_def split: prod.splits dest: randint_range [rotated])

lemma fact_row_Some:
  assumes "fact_row road_conditions_df row g = Inr (Some f, g')"
  shows "fact_AccidentID f = g_AccidentID row"
    and "fact_DateID f = g_DateID row"
    and "fact_LocationID f = g_LocationID row"
    and "fact_VehiclesInvolved f = g_VehiclesInvolved row"
    and "SeverityScore f = severity_score (g_Severity row)"
    and "1 \<le> fact_VehicleID f \<and> fact_VehicleID f \<le> 200"
    and "\<exists>reported_at loc. g_ReportedAt row = Some reported_at \<and> g_Location row = Some loc
           \<and> (matching_conditions road_conditions_df loc = [] \<longrightarrow>
                (\<exists>n. fact_RoadConditionID f = Some n \<and> 1 \<le> n \<and> n \<le> 100))"
proof -
  from assms obtain reported_at loc where
    ra: "g_ReportedAt row = Some reported_at" and lo: "g_Location row = Some loc"
    by (auto simp: fact_row_def split: option.splits)
  obtain vehicle_id g1 where v: "randint 1 200 g = (vehicle_id, g1)"
    by (cases "randint 1 200 g")
  from assms ra lo v obtain rc_id where
    rc: "road_condition_id road_conditions_df loc reported_at g1 = Inr (rc_id, g')"
    and f: "f = \<lparr>fact_AccidentID = g_AccidentID row, fact_DateID = g_DateID row,
                 fact_LocationID = g_LocationID row, fact_VehicleID = vehicle_id,
                 fact_RoadConditionID = rc_id,
                 fact_VehiclesInvolved = g_VehiclesInvolved row,
                 SeverityScore = severity_score (g_Severity row)\<rparr>"
    by (auto simp: fact_row_def split: sum.splits)
  show "fact_AccidentID f = g_AccidentID row" "fact_DateID f = g_DateID row"
    "fact_LocationID f = g_LocationID row" "fact_VehiclesInvolved f = g_VehiclesInvolved row"
    "SeverityScore f = severity_score (g_Severity row)"
    by (simp_all add: f)
  show "1 \<le> fact_VehicleID f \<and> fact_VehicleID f \<le> 200"
    using randint_range [OF _ v] by (simp add: f)
  show "\<exists>reported_at loc. g_ReportedAt row = Some reported_at \<and> g_Location row = Some loc
           \<and> (matching_conditions road_conditions_df loc = [] \<longrightarrow>
                (\<exists>n. fact_RoadConditionID f = Some n \<and> 1 \<le> n \<and> n \<le> 100))"
    using ra lo road_condition_id_fallback [OF _ rc] by (simp add: f)
qed

lemma fact_row_skip:
  "g_ReportedAt row = None \<or> g_Location row = None \<Longrightarrow>
     fact_row road_conditions_df row g = Inr (None, g)"
  by (auto simp: fact_row_def split: option.splits)

lemma fact_accidents_data_rows:
  "fact_accidents_data road_conditions_df rows g = Inr (fs, g') \<Longrightarrow> f \<in> set fs \<Longrightarrow>
     \<exists>row \<in> set rows. \<exists>g1 g2. fact_row road_conditions_df row g1 = Inr (Some f, g2)"
proof (induction rows arbitrary: g fs)
  case Nil
  then show ?case by simp
next
  case (Cons row rows)
  show ?case
  proof (cases "fact_row road_conditions_df row g")
    case (Inl e)
    with Cons.prems show ?thesis by simp
  next
    case (Inr p)
    obtain o1 g1 where p: "p = (o1, g1)" by (cases p)
    show ?thesis
    proof (cases o1)
      case None
      with Cons.prems Inr p have "fact_accidents_data road_conditions_df rows g1 = Inr (fs, g')"
        by simp
      from Cons.IH [OF this Cons.prems(2)] show ?thesis by auto
    next
      case (Some f1)
      with Cons.prems Inr p obtain fs1 where
        rest: "fact_accidents_data road_conditions_df rows g1 = Inr (fs1, g')" and fs: "fs = f1 # fs1"
        by (auto split: sum.splits)
      show ?thesis
      proof (cases "f = f1")
        case True
        with Inr p Some show ?thesis by auto
      next
        case False
        with fs Cons.prems(2) have "f \<in> set fs1" by simp
        from Cons.IH [OF rest this] show ?thesis by auto
      qed
    qed
  qed
qed

lemma fact_accidents_data_ids:
  "fact_accidents_data road_conditions_df rows g = Inr (fs, g') \<Longrightarrow>
     set (map fact_AccidentID fs) \<subseteq> set (map g_AccidentID rows)
     \<and> (distinct (map g_AccidentID rows) \<longrightarrow> distinct (map fact_AccidentID fs))"
proof (induction rows arbitrary: g fs)
  case Nil
  then show ?case by simp
next
  case (Cons row rows)
  show ?case
  proof (cases "fact_row road_conditions_df row g")
    case (Inl e)
    with Cons.prems show ?thesis by simp
  next
    case (Inr p)
    obtain o1 g1 where p: "p = (o1, g1)" by (cases p)
    show ?thesis
    proof (cases o1)
      case None
      with Cons.prems Inr p have "fact_accidents_data road_conditions_df rows g1 = Inr (fs, g')"
        by simp
      from Cons.IH [OF this] show ?thesis by auto
    next
      case (Some f1)
      with Cons.prems Inr p obtain fs1 where
        rest: "fact_accidents_data road_conditions_df rows g1 = Inr (fs1, g')" and fs: "fs = f1 # fs1"
        by (auto split: sum.splits)
      have id: "fact_AccidentID f1 = g_AccidentID row"
        using Inr p Some by (simp add: fact_row_Some(1))
      from Cons.IH [OF rest] show ?thesis
        unfolding fs using id by auto
    qed
  qed
qed

lemma groupby_first_ids:
  "map g_AccidentID (groupby_first rows) = sort (remdups (List.map_filter m_AccidentID rows))"
  by (simp add: groupby_first_def comp_def Let_def)

lemma groupby_first_distinct: "distinct (map g_AccidentID (groupby_first rows))"
  by (simp add: groupby_first_ids)

lemma fact_row_fallback:
  assumes "g_ReportedAt row = Some reported_at" and "g_Location row = Some loc"
    and "list_all (\<lambda>c. cond_Location c \<noteq> Some loc) road_conditions_df"
  shows "\<exists>f g2 n. fact_row road_conditions_df row g = Inr (Some f, g2)
           \<and> 1 \<le> fact_VehicleID f \<and> fact_VehicleID f \<le> 200
           \<and> fact_RoadConditionID f = Some n \<and> 1 \<le> n \<and> n \<le> 100"
proof -
  obtain v g1 where v: "randint 1 200 g = (v, g1)"
    by (cases "randint 1 200 g")
  obtain n g2 where n: "randint 1 100 g1 = (n, g2)"
    by (cases "randint 1 100 g1")
  have m: "matching_conditions road_conditions_df loc = []"
    using assms(3) by (simp add: matching_conditions_empty)
  have "fact_row road_conditions_df row g =
          Inr (Some \<lparr>fact_AccidentID = g_AccidentID row, fact_DateID = g_DateID row,
                      fact_LocationID = g_LocationID row, fact_VehicleID = v,
                      fact_RoadConditionID = Some n,
                      fact_VehiclesInvolved = g_VehiclesInvolved row,
                      SeverityScore = severity_score (g_Severity row)\<rparr>, g2)"
    using assms(1,2) v n m by (simp add: fact_row_def road_condition_id_def)
  moreover have "1 \<le> v \<and> v \<le> 200"
    using randint_range [OF _ v] by simp
  moreover have "1 \<le> n \<and> n \<le> 100"
    using randint_range [OF _ n] by simp
  ultimately show ?thesis
    by simp
qed

lemma first_valid_Some: "first_valid xs = Some v \<Longrightarrow> Some v \<in> set xs"
  by (induction xs rule: first_valid.induct) auto

lemma merge_left_fst:
  assumes "p \<in> set (merge_left left right left_on right_on)"
  shows "fst p \<in> set left"
proof -
  from assms obtain l where l: "l \<in> set left"
    and p: "p \<in> set (case filter (\<lambda>r. right_on r = left_on l) right of
                      [] \<Rightarrow> [(l, None)] | ms \<Rightarrow> map (\<lambda>r. (l, Some r)) ms)"
    by (auto simp: merge_left_def)
  from p have "fst p = l"
    by (cases "filter (\<lambda>r. right_on r = left_on l) right") auto
  with l show ?thesis by simp
qed

lemma accidents_with_location_rows:
  assumes "m \<in> set (accidents_with_location accidents_df dim_location_df dim_date_df)"
  shows "\<exists>a \<in> set accidents_df. m_AccidentID m = AccidentID a \<and> m_Location m = Location a"
proof -
  from assms obtain a d l where
    p: "((a, d), l) \<in> set (merge_left
          (merge_left accidents_df dim_date_df (\<lambda>a. map_option dt_date (ReportedAt a)) Date)
          dim_location_df (\<lambda>(a, d). Location a) LocationName)"
    and m: "m_AccidentID m = AccidentID a" "m_Location m = Location a"
    by (auto simp: accidents_with_location_def)
  from merge_left_fst [OF p] have
    "(a, d) \<in> set (merge_left accidents_df dim_date_df (\<lambda>a. map_option dt_date (ReportedAt a)) Date)"
    by simp
  from merge_left_fst [OF this] have "a \<in> set accidents_df"
    by simp
  with m show ?thesis by blast
qed

lemma groupby_first_Location:
  assumes "row \<in> set (groupby_first rows)" and "g_Location row = Some loc"
  shows "\<exists>m \<in> set rows. m_AccidentID m = Some (g_AccidentID row) \<and> m_Location m = Some loc"
proof -
  from assms(1) have
    "g_Location row =
       first_valid (map m_Location (filter (\<lambda>r. m_AccidentID r = Some (g_AccidentID row)) rows))"
    by (auto simp: groupby_first_def Let_def)
  with assms(2) have
    "first_valid (map m_Location (filter (\<lambda>r. m_AccidentID r = Some (g_AccidentID row)) rows))
       = Some loc"
    by simp
  from first_valid_Some [OF this] show ?thesis by auto
qed

lemma fact_rows_in_range:
  assumes "populate_fact_accidents accidents_df dim_location_df dim_date_df road_conditions_df
             eng g = Inr (eng', g')"
  shows "\<forall>f \<in> set (Fact_Accidents eng').
           1 \<le> fact_VehicleID f \<and> fact_VehicleID f \<le> 200 \<and>
           (\<exists>row \<in> set (groupby_first
                           (accidents_with_location accidents_df dim_location_df dim_date_df)).
              \<exists>loc. g_AccidentID row = fact_AccidentID f \<and> g_Location row = Some loc \<and>
                (\<exists>a \<in> set accidents_df.
                    AccidentID a = Some (fact_AccidentID f) \<and> Location a = Some loc) \<and>
                (list_all (\<lambda>c. cond_Location c \<noteq> Some loc) road_conditions_df \<longrightarrow>
                   (\<exists>n. fact_RoadConditionID f = Some n \<and> 1 \<le> n \<and> n \<le> 100)))"
proof
  fix f
  assume f: "f \<in> set (Fact_Accidents eng')"
  define grouped where
    "grouped = groupby_first (accidents_with_location accidents_df dim_location_df dim_date_df)"
  from assms obtain fs where
    data: "fact_accidents_data road_conditions_df grouped g = Inr (fs, g')"
    and eng': "eng' = eng\<lparr>Fact_Accidents := fs\<rparr>"
    by (auto simp: populate_fact_accidents_def grouped_def split: sum.splits if_splits)
  from f eng' have "f \<in> set fs" by simp
  from fact_accidents_data_rows [OF data this] obtain row g1 g2 where
    row: "row \<in> set grouped" and fr: "fact_row road_conditions_df row g1 = Inr (Some f, g2)"
    by blast
  from fact_row_Some(7) [OF fr] obtain loc where
    loc: "g_Location row = Some loc"
    and fb: "matching_conditions road_conditions_df loc = [] \<longrightarrow>
               (\<exists>n. fact_RoadConditionID f = Some n \<and> 1 \<le> n \<and> n \<le> 100)"
    by blast
  have id: "g_AccidentID row = fact_AccidentID f"
    using fact_row_Some(1) [OF fr] by simp
  from groupby_first_Location [OF row [unfolded grouped_def] loc] obtain m where
    m: "m \<in> set (accidents_with_location accidents_df dim_location_df dim_date_df)"
      "m_AccidentID m = Some (g_AccidentID row)" "m_Location m = Some loc"
    by blast
  from accidents_with_location_rows [OF m(1)] m(2,3) id have
    acc: "\<exists>a \<in> set accidents_df. AccidentID a = Some (fact_AccidentID f) \<and> Location a = Some loc"
    by auto
  show "1 \<le> fact_VehicleID f \<and> fact_VehicleID f \<le> 200 \<and>
           (\<exists>row \<in> set (groupby_first
                           (accidents_with_location accidents_df dim_location_df dim_date_df)).
              \<exists>loc. g_AccidentID row = fact_AccidentID f \<and> g_Location row = Some loc \<and>
                (\<exists>a \<in> set accidents_df.
                    AccidentID a = Some (fact_AccidentID f) \<and> Location a = Some loc) \<and>
                (list_all (\<lambda>c. cond_Location c \<noteq> Some loc) road_conditions_df \<longrightarrow>
                   (\<exists>n. fact_RoadConditionID f = Some n \<and> 1 \<le> n \<and> n \<le> 100)))"
    using fact_row_Some(6) [OF fr] row [unfolded grouped_def] id loc acc fb
    unfolding matching_conditions_empty by blast
qed

lemma severity_score_values:
  "severity_score (Some ''Minor'') = 1" "severity_score (Some ''Moderate'') = 2"
  "severity_score (Some ''Severe'') = 3"
  by (simp_all add: severity_score_def severity_map_def)

lemma severity_score_default:
  "s \<notin> {Some ''Minor'', Some ''Moderate'', Some ''Severe''} \<Longrightarrow> severity_score s = 1"
  by (cases s) (auto simp: severity_score_def severity_map_def)

lemma severity_score_range: "severity_score s \<in> {1, 2, 3}"
  by (cases s) (auto simp: severity_score_def severity_map_def)

lemma fact_row_error_independent_of_severity:
  "isl (fact_row road_conditions_df (row\<lparr>g_Severity := s\<rparr>) g) =
   isl (fact_row road_conditions_df row g)"
  by (simp add: fact_row_def split: option.splits prod.splits sum.splits)

text \<open>The definitions a run on a concrete input unfolds.\<close>

lemmas fact_defs = populate_fact_accidents_def accidents_with_location_def merge_left_def
  groupby_first_def List.map_filter_def fact_row_def road_condition_id_def
  matching_conditions_def time_diffs_def iloc_def randint_def severity_score_def
  severity_map_def dt_date_def NS_PER_DAY_def initial_engine_def

subsection \<open>Random placeholder keys\<close>

text \<open>
  Claim C6. For every outcome of the random source: in every row of the fact table
  written by a run, VehicleID is in \<open>[1, 200]\<close>, and the row comes from an accident
  (a row of the grouped frame, and an accident of the batch with the same AccidentID and
  Location) such that RoadConditionID is in \<open>[1, 100]\<close> whenever no road condition has
  that Location. Moreover the loop body cannot fail on a row with ReportedAt and Location
  when no road condition has the Location: it emits a row with both keys in range.
\<close>

theorem fact_vehicle_and_fallback_ranges:
  "(populate_fact_accidents accidents_df dim_location_df dim_date_df road_conditions_df
       eng g = Inr (eng', g') \<longrightarrow>
     (\<forall>f \<in> set (Fact_Accidents eng').
        1 \<le> fact_VehicleID f \<and> fact_VehicleID f \<le> 200 \<and>
        (\<exists>row \<in> set (groupby_first
                        (accidents_with_location accidents_df dim_location_df dim_date_df)).
           \<exists>loc. g_AccidentID row = fact_AccidentID f \<and> g_Location row = Some loc \<and>
             (\<exists>a \<in> set accidents_df.
                 AccidentID a = Some (fact_AccidentID f) \<and> Location a = Some loc) \<and>
             (list_all (\<lambda>c. cond_Location c \<noteq> Some loc) road_conditions_df \<longrightarrow>
                (\<exists>n. fact_RoadConditionID f = Some n \<and> 1 \<le> n \<and> n \<le> 100)))))
   \<and> (g_ReportedAt r = Some reported_at \<and> g_Location r = Some l
        \<and> list_all (\<lambda>c. cond_Location c \<noteq> Some l) road_conditions_df \<longrightarrow>
       (\<exists>f g2 n. fact_row road_conditions_df r g = Inr (Some f, g2)
           \<and> 1 \<le> fact_VehicleID f \<and> fact_VehicleID f \<le> 200
           \<and> fact_RoadConditionID f = Some n \<and> 1 \<le> n \<and> n \<le> 100))"
proof (intro conjI impI)
  assume "populate_fact_accidents accidents_df dim_location_df dim_date_df road_conditions_df
       eng g = Inr (eng', g')"
  then show "\<forall>f \<in> set (Fact_Accidents eng').
        1 \<le> fact_VehicleID f \<and> fact_VehicleID f \<le> 200 \<and>
        (\<exists>row \<in> set (groupby_first
                        (accidents_with_location accidents_df dim_location_df dim_date_df)).
           \<exists>loc. g_AccidentID row = fact_AccidentID f \<and> g_Location row = Some loc \<and>
             (\<exists>a \<in> set accidents_df.
                 AccidentID a = Some (fact_AccidentID f) \<and> Location a = Some loc) \<and>
             (list_all (\<lambda>c. cond_Location c \<noteq> Some loc) road_conditions_df \<longrightarrow>
                (\<exists>n. fact_RoadConditionID f = Some n \<and> 1 \<le> n \<and> n \<le> 100)))"
    by (rule fact_rows_in_range)
next
  assume "g_ReportedAt r = Some reported_at \<and> g_Location r = Some l
        \<and> list_all (\<lambda>c. cond_Location c \<noteq> Some l) road_conditions_df"
  then show "\<exists>f g2 n. fact_row road_conditions_df r g = Inr (Some f, g2)
           \<and> 1 \<le> fact_VehicleID f \<and> fact_VehicleID f \<le> 200
           \<and> fact_RoadConditionID f = Some n \<and> 1 \<le> n \<and> n \<le> 100"
    using fact_row_fallback [of r reported_at l road_conditions_df g] by simp
qed

theorem fact_vehicle_and_fallback_ranges_witness:
  "populate_fact_accidents
     [\<lparr>AccidentID = Some 7, ReportedAt = Some 1709649000000000000, Location = Some ''Main St'',
        VehiclesInvolved = Some 2, Severity = Some ''Moderate''\<rparr>]
     [\<lparr>LocationID = 1, LocationName = Some ''Main St''\<rparr>]
     [\<lparr>DateID = 1, Date = Some 19787, Month = Some 3, Year = Some 2024,
        Time = Some 1709596800000000000\<rparr>]
     [\<lparr>ConditionID = Some 10, cond_Location = Some ''Elm St'',
        RecordedAt = Some 1709649000000000000, Surface = Some ''Dry'',
        Visibility = Some ''Clear''\<rparr>]
     initial_engine (\<lambda>_. 41) =
   Inr (initial_engine\<lparr>Fact_Accidents :=
          [\<lparr>fact_AccidentID = 7, fact_DateID = Some 1, fact_LocationID = Some 1,
             fact_VehicleID = 42, fact_RoadConditionID = Some 42,
             fact_VehiclesInvolved = Some 2, SeverityScore = 2\<rparr>]\<rparr>, \<lambda>_. 41)
   \<and> (1 \<le> fact_VehicleID
            \<lparr>fact_AccidentID = 7, fact_DateID = Some 1, fact_LocationID = Some 1,
              fact_VehicleID = 42, fact_RoadConditionID = Some 42,
              fact_VehiclesInvolved = Some 2, SeverityScore = 2\<rparr>
        \<and> fact_VehicleID
            \<lparr>fact_AccidentID = 7, fact_DateID = Some 1, fact_LocationID = Some 1,
              fact_VehicleID = 42, fact_RoadConditionID = Some 42,
              fact_VehiclesInvolved = Some 2, SeverityScore = 2\<rparr> \<le> 200
        \<and> (\<exists>n. fact_RoadConditionID
            \<lparr>fact_AccidentID = 7, fact_DateID = Some 1, fact_LocationID = Some 1,
              fact_VehicleID = 42, fact_RoadConditionID = Some 42,
              fact_VehiclesInvolved = Some 2, SeverityScore = 2\<rparr> = Some n \<and> 1 \<le> n \<and> n \<le> 100))
   \<and> (\<exists>f g2 n. fact_row
          [\<lparr>ConditionID = Some 10, cond_Location = Some ''Elm St'',
             RecordedAt = Some 1709649000000000000, Surface = Some ''Dry'',
             Visibility = Some ''Clear''\<rparr>]
          \<lparr>g_AccidentID = 7, g_ReportedAt = Some 1709649000000000000,
             g_Location = Some ''Main St'', g_VehiclesInvolved = Some 2,
             g_Severity = Some ''Moderate'', g_DateID = Some 1, g_LocationID = Some 1\<rparr>
          (\<lambda>_. 41) = Inr (Some f, g2)
        \<and> 1 \<le> fact_VehicleID f \<and> fact_VehicleID f \<le> 200
        \<and> fact_RoadConditionID f = Some n \<and> 1 \<le> n \<and> n \<le> 100)"
proof -
  have run: "populate_fact_accidents
     [\<lparr>AccidentID = Some 7, ReportedAt = Some 1709649000000000000, Location = Some ''Main St'',
        VehiclesInvolved = Some 2, Severity = Some ''Moderate''\<rparr>]
     [\<lparr>LocationID = 1, LocationName = Some ''Main St''\<rparr>]
     [\<lparr>DateID = 1, Date = Some 19787, Month = Some 3, Year = Some 2024,
        Time = Some 1709596800000000000\<rparr>]
     [\<lparr>ConditionID = Some 10, cond_Location = Some ''Elm St'',
        RecordedAt = Some 1709649000000000000, Surface = Some ''Dry'',
        Visibility = Some ''Clear''\<rparr>]
     initial_engine (\<lambda>_. 41) =
   Inr (initial_engine\<lparr>Fact_Accidents :=
          [\<lparr>fact_AccidentID = 7, fact_DateID = Some 1, fact_LocationID = Some 1,
             fact_VehicleID = 42, fact_RoadConditionID = Some 42,
             fact_VehiclesInvolved = Some 2, SeverityScore = 2\<rparr>]\<rparr>, \<lambda>_. 41)"
    by (simp add: fact_defs)
  note inst = fact_vehicle_and_fallback_ranges
    [where road_conditions_df =
        "[\<lparr>ConditionID = Some 10, cond_Location = Some ''Elm St'',
            RecordedAt = Some 1709649000000000000, Surface = Some ''Dry'',
            Visibility = Some ''Clear''\<rparr>]"
      and g = "\<lambda>_. 41"
      and r = "\<lparr>g_AccidentID = 7, g_ReportedAt = Some 1709649000000000000,
            g_Location = Some ''Main St'', g_VehiclesInvolved = Some 2,
            g_Severity = Some ''Moderate'', g_DateID = Some 1, g_LocationID = Some 1\<rparr>"
      and reported_at = 1709649000000000000 and l = "''Main St''"]
  from inst [THEN conjunct1, THEN mp, OF run]
  have table: "(1 \<le> fact_VehicleID
            \<lparr>fact_AccidentID = 7, fact_DateID = Some 1, fact_LocationID = Some 1,
              fact_VehicleID = 42, fact_RoadConditionID = Some 42,
              fact_VehiclesInvolved = Some 2, SeverityScore = 2\<rparr>
        \<and> fact_VehicleID
            \<lparr>fact_AccidentID = 7, fact_DateID = Some 1, fact_LocationID = Some 1,
              fact_VehicleID = 42, fact_RoadConditionID = Some 42,
              fact_VehiclesInvolved = Some 2, SeverityScore = 2\<rparr> \<le> 200
        \<and> (\<exists>n. fact_RoadConditionID
            \<lparr>fact_AccidentID = 7, fact_DateID = Some 1, fact_LocationID = Some 1,
              fact_VehicleID = 42, fact_RoadConditionID = Some 42,
              fact_VehiclesInvolved = Some 2, SeverityScore = 2\<rparr> = Some n \<and> 1 \<le> n \<and> n \<le> 100))"
    by (simp add: initial_engine_def)
  have "\<exists>f g2 n. fact_row
          [\<lparr>ConditionID = Some 10, cond_Location = Some ''Elm St'',
             RecordedAt = Some 1709649000000000000, Surface = Some ''Dry'',
             Visibility = Some ''Clear''\<rparr>]
          \<lparr>g_AccidentID = 7, g_ReportedAt = Some 1709649000000000000,
             g_Location = Some ''Main St'', g_VehiclesInvolved = Some 2,
             g_Severity = Some ''Moderate'', g_DateID = Some 1, g_LocationID = Some 1\<rparr>
          (\<lambda>_. 41) = Inr (Some f, g2)
        \<and> 1 \<le> fact_VehicleID f \<and> fact_VehicleID f \<le> 200
        \<and> fact_RoadConditionID f = Some n \<and> 1 \<le> n \<and> n \<le> 100"
    by (rule inst [THEN conjunct2, THEN mp]) simp
  with run table show ?thesis
    by (intro conjI [OF run] conjI [OF table])
qed

subsection \<open>Severity\<close>

text \<open>
  The score: 1 for Minor, 2 for Moderate, 3 for Severe, 1 for anything else and for a
  missing Severity (\<open>severity_score_values\<close>, \<open>severity_score_default\<close>,
  \<open>severity_score_range\<close> above), and whether the loop body fails does not depend on
  Severity (\<open>fact_row_error_independent_of_severity\<close>). What remains is which Severity
  the loop reads for an accident of the batch: the grouped frame holds, for every
  AccidentID, the first Severity of the batch's accidents with that AccidentID that is
  not missing.
\<close>

lemma first_valid_constant_prefix:
  "xs \<noteq> [] \<Longrightarrow> \<forall>x \<in> set xs. x = v \<Longrightarrow> first_valid (xs @ ys) = first_valid (v # ys)"
proof (induction xs)
  case Nil
  then show ?case by simp
next
  case (Cons x xs)
  then have x: "x = v" by simp
  show ?case
  proof (cases v)
    case None
    show ?thesis
    proof (cases "xs = []")
      case True
      with x show ?thesis by simp
    next
      case False
      with Cons have "first_valid (xs @ ys) = first_valid (v # ys)" by simp
      with x None show ?thesis by simp
    qed
  next
    case (Some y)
    with x show ?thesis by simp
  qed
qed

lemma first_valid_Cons:
  "first_valid (v # xs) = (case v of None \<Rightarrow> first_valid xs | Some x \<Rightarrow> Some x)"
  by (cases v) simp_all

lemma first_valid_of_groups:
  assumes "\<And>a. a \<in> set accs \<Longrightarrow>
             h a \<noteq> [] \<and> (\<forall>m \<in> set (h a). key m = K a \<and> val m = V a)"
  shows "first_valid (map val (filter (\<lambda>m. key m = k) (concat (map h accs)))) =
         first_valid (map V (filter (\<lambda>a. K a = k) accs))"
  using assms
proof (induction accs)
  case Nil
  then show ?case by simp
next
  case (Cons a accs)
  have ha: "h a \<noteq> []" and hm: "\<forall>m \<in> set (h a). key m = K a \<and> val m = V a"
    using Cons.prems [of a] by simp_all
  have IH: "first_valid (map val (filter (\<lambda>m. key m = k) (concat (map h accs)))) =
            first_valid (map V (filter (\<lambda>a. K a = k) accs))"
    using Cons.IH Cons.prems by simp
  show ?case
  proof (cases "K a = k")
    case True
    with hm have keep: "filter (\<lambda>m. key m = k) (h a) = h a"
      by (simp add: filter_id_conv)
    have vals: "\<forall>x \<in> set (map val (h a)). x = V a"
      using hm by simp
    have ne: "map val (h a) \<noteq> []"
      using ha by simp
    from first_valid_constant_prefix [OF ne vals] True keep IH show ?thesis
      by (simp add: first_valid_Cons split: option.split)
  next
    case False
    with hm have "filter (\<lambda>m. key m = k) (h a) = []"
      by (simp add: filter_empty_conv)
    with False IH show ?thesis by simp
  qed
qed

lemma merge_left_append:
  "merge_left (xs @ ys) right left_on right_on =
     merge_left xs right left_on right_on @ merge_left ys right left_on right_on"
  by (simp add: merge_left_def)

lemma merge_left_nonempty:
  "left \<noteq> [] \<Longrightarrow> merge_left left right left_on right_on \<noteq> []"
proof (cases left)
  case Nil
  assume "left \<noteq> []"
  with Nil show ?thesis by simp
next
  case (Cons l ls)
  show ?thesis
    unfolding Cons
    by (cases "filter (\<lambda>r. right_on r = left_on l) right") (simp_all add: merge_left_def)
qed

lemma accidents_with_location_append:
  "accidents_with_location (xs @ ys) dim_location_df dim_date_df =
     accidents_with_location xs dim_location_df dim_date_df @
     accidents_with_location ys dim_location_df dim_date_df"
  by (simp add: accidents_with_location_def Let_def merge_left_append)

lemma accidents_with_location_concat:
  "accidents_with_location accidents_df dim_location_df dim_date_df =
     concat (map (\<lambda>a. accidents_with_location [a] dim_location_df dim_date_df) accidents_df)"
proof (induction accidents_df)
  case Nil
  show ?case by (simp add: accidents_with_location_def merge_left_def)
next
  case (Cons a accs)
  from accidents_with_location_append [of "[a]" accs dim_location_df dim_date_df] Cons
  show ?case by simp
qed

lemma accidents_with_location_single_nonempty:
  "accidents_with_location [a] dim_location_df dim_date_df \<noteq> []"
  by (simp add: accidents_with_location_def Let_def merge_left_nonempty)

lemma accidents_with_location_columns:
  assumes "m \<in> set (accidents_with_location accidents_df dim_location_df dim_date_df)"
  shows "\<exists>a \<in> set accidents_df. m_AccidentID m = AccidentID a \<and> m_ReportedAt m = ReportedAt a
           \<and> m_Location m = Location a \<and> m_VehiclesInvolved m = VehiclesInvolved a
           \<and> m_Severity m = Severity a"
proof -
  from assms obtain a d l where
    p: "((a, d), l) \<in> set (merge_left
          (merge_left accidents_df dim_date_df (\<lambda>a. map_option dt_date (ReportedAt a)) Date)
          dim_location_df (\<lambda>(a, d). Location a) LocationName)"
    and m: "m_AccidentID m = AccidentID a" "m_ReportedAt m = ReportedAt a"
      "m_Location m = Location a" "m_VehiclesInvolved m = VehiclesInvolved a"
      "m_Severity m = Severity a"
    by (auto simp: accidents_with_location_def)
  from merge_left_fst [OF p] have
    "(a, d) \<in> set (merge_left accidents_df dim_date_df (\<lambda>a. map_option dt_date (ReportedAt a)) Date)"
    by simp
  from merge_left_fst [OF this] have "a \<in> set accidents_df"
    by simp
  with m show ?thesis by blast
qed

lemma groupby_first_Severity_of_batch:
  assumes "row \<in> set (groupby_first
                        (accidents_with_location accidents_df dim_location_df dim_date_df))"
  shows "g_Severity row =
           first_valid (map Severity
             (filter (\<lambda>a. AccidentID a = Some (g_AccidentID row)) accidents_df))"
proof -
  from assms have
    "g_Severity row =
       first_valid (map m_Severity
         (filter (\<lambda>r. m_AccidentID r = Some (g_AccidentID row))
            (accidents_with_location accidents_df dim_location_df dim_date_df)))"
    by (auto simp: groupby_first_def Let_def)
  also have "\<dots> =
       first_valid (map m_Severity
         (filter (\<lambda>r. m_AccidentID r = Some (g_AccidentID row))
            (concat (map (\<lambda>a. accidents_with_location [a] dim_location_df dim_date_df)
                       accidents_df))))"
    using accidents_with_location_concat [of accidents_df dim_location_df dim_date_df]
    by simp
  also have "\<dots> =
       first_valid (map Severity
         (filter (\<lambda>a. AccidentID a = Some (g_AccidentID row)) accidents_df))"
  proof (rule first_valid_of_groups)
    fix a
    show "accidents_with_location [a] dim_location_df dim_date_df \<noteq> [] \<and>
          (\<forall>m \<in> set (accidents_with_location [a] dim_location_df dim_date_df).
             m_AccidentID m = AccidentID a \<and> m_Severity m = Severity a)"
      using accidents_with_location_single_nonempty [of a dim_location_df dim_date_df]
        accidents_with_location_columns [of _ "[a]" dim_location_df dim_date_df]
      by auto
  qed
  finally show ?thesis .
qed

lemma emitted_severity_score:
  assumes "populate_fact_accidents accidents_df dim_location_df dim_date_df road_conditions_df
             eng g = Inr (eng', g')"
    and "f \<in> set (Fact_Accidents eng')"
  shows "SeverityScore f =
           severity_score (first_valid (map Severity
             (filter (\<lambda>a. AccidentID a = Some (fact_AccidentID f)) accidents_df)))"
proof -
  define grouped where
    "grouped = groupby_first (accidents_with_location accidents_df dim_location_df dim_date_df)"
  from assms(1) obtain fs where
    data: "fact_accidents_data road_conditions_df grouped g = Inr (fs, g')"
    and eng': "eng' = eng\<lparr>Fact_Accidents := fs\<rparr>"
    by (auto simp: populate_fact_accidents_def grouped_def split: sum.splits if_splits)
  from assms(2) eng' have "f \<in> set fs" by simp
  from fact_accidents_data_rows [OF data this] obtain r g1 g2 where
    r: "r \<in> set grouped" and fr: "fact_row road_conditions_df r g1 = Inr (Some f, g2)"
    by blast
  have "SeverityScore f = severity_score (g_Severity r)" "g_AccidentID r = fact_AccidentID f"
    using fact_row_Some(1,5) [OF fr] by simp_all
  with groupby_first_Severity_of_batch [OF r [unfolded grouped_def]] show ?thesis
    by simp
qed

lemma emitted_severity_score_single:
  assumes "populate_fact_accidents accidents_df dim_location_df dim_date_df road_conditions_df
             eng g = Inr (eng', g')"
    and "f \<in> set (Fact_Accidents eng')"
    and "filter (\<lambda>a. AccidentID a = Some (fact_AccidentID f)) accidents_df = [a]"
  shows "SeverityScore f = severity_score (Severity a)"
  using emitted_severity_score [OF assms(1,2)] assms(3) by (simp add: first_valid_Cons split: option.split)

text \<open>
  Claim C7 says that for every accident row the emitted SeverityScore is 1 for Minor, 2
  for Moderate, 3 for Severe and 1 for any other or missing Severity. For an accident
  whose AccidentID occurs once that is what the source does
  (\<open>emitted_severity_score_single\<close>). For a duplicated AccidentID it is not: the row
  emitted for an accident whose Severity is missing takes the Severity of a later
  occurrence, by the same grouping as in claim C1. Below, AccidentID 5 occurs twice,
  first with 2 vehicles and no Severity, then with 3 vehicles and Moderate; the row
  emitted carries VehiclesInvolved 2 of the first occurrence and SeverityScore 2, while
  the score of a missing Severity is 1.
\<close>

theorem missing_severity_scored_from_duplicate:
  "populate_fact_accidents
     [\<lparr>AccidentID = Some 5, ReportedAt = Some 1709649000000000000, Location = Some ''Main St'',
        VehiclesInvolved = Some 2, Severity = None\<rparr>,
      \<lparr>AccidentID = Some 5, ReportedAt = Some 1709652600000000000, Location = Some ''Main St'',
        VehiclesInvolved = Some 3, Severity = Some ''Moderate''\<rparr>]
     [\<lparr>LocationID = 1, LocationName = Some ''Main St''\<rparr>]
     [\<lparr>DateID = 1, Date = Some 19787, Month = Some 3, Year = Some 2024,
        Time = Some 1709596800000000000\<rparr>]
     [] initial_engine (\<lambda>_. 0) =
   Inr (initial_engine\<lparr>Fact_Accidents :=
          [\<lparr>fact_AccidentID = 5, fact_DateID = Some 1, fact_LocationID = Some 1,
             fact_VehicleID = 1, fact_RoadConditionID = Some 1,
             fact_VehiclesInvolved = Some 2, SeverityScore = 2\<rparr>]\<rparr>, \<lambda>_. 0)
   \<and> severity_score None = 1"
  by (simp add: fact_defs)

subsection \<open>Duplicated accident keys\<close>

text \<open>
  The keys of the grouped frame are distinct, and the loop emits at most one row per row
  of the grouped frame: no two rows of the fact table have the same AccidentID.
\<close>

lemma fact_accident_ids_distinct:
  "populate_fact_accidents accidents_df dim_location_df dim_date_df road_conditions_df eng g
     = Inr (eng', g') \<Longrightarrow> distinct (map fact_AccidentID (Fact_Accidents eng'))"
  by (auto simp: populate_fact_accidents_def split: sum.splits if_splits
      dest!: fact_accidents_data_ids simp: groupby_first_distinct)

text \<open>
  The dimension tables of the batch used below, in which AccidentID 1 occurs twice.
\<close>

lemma duplicate_batch_dimensions:
  "populate_dim_location
     [\<lparr>AccidentID = Some 1, ReportedAt = Some 1709649000000000000, Location = Some ''Main St'',
        VehiclesInvolved = Some 1, Severity = None\<rparr>,
      \<lparr>AccidentID = Some 1, ReportedAt = Some 1709649000000000000, Location = Some ''Main St'',
        VehiclesInvolved = Some 4, Severity = Some ''Severe''\<rparr>] initial_engine =
   Inr ([\<lparr>LocationID = 1, LocationName = Some ''Main St''\<rparr>],
        initial_engine\<lparr>Dim_Location := [\<lparr>LocationID = 1, LocationName = Some ''Main St''\<rparr>]\<rparr>)
   \<and> populate_dim_date
     [\<lparr>AccidentID = Some 1, ReportedAt = Some 1709649000000000000, Location = Some ''Main St'',
        VehiclesInvolved = Some 1, Severity = None\<rparr>,
      \<lparr>AccidentID = Some 1, ReportedAt = Some 1709649000000000000, Location = Some ''Main St'',
        VehiclesInvolved = Some 4, Severity = Some ''Severe''\<rparr>] initial_engine =
   Inr ([\<lparr>DateID = 1, Date = Some 19787, Month = Some 3, Year = Some 2024,
          Time = Some 1709596800000000000\<rparr>],
        initial_engine\<lparr>Dim_Date :=
          [\<lparr>DateID = 1, Date = Some 19787, Month = Some 3, Year = Some 2024,
            Time = Some 1709596800000000000\<rparr>]\<rparr>)"
  by (simp add: populate_dim_location_def unique_def populate_dim_date_def drop_duplicates_def
      range1_def dt_date_def to_datetime_date_def NS_PER_DAY_def dt_month_def dt_year_def
      date_month_def date_year_def civil_from_days_19787 Let_def)

text \<open>
  Claim C1 says that the fact table has at most one row per AccidentID (which holds, see
  above) and that the row kept for a duplicated AccidentID carries the field values of
  the first occurrence. The source does not do the second: \<^verbatim>\<open>groupby(...).first()\<close>
  takes, column by column, the first value that is not missing. Below, AccidentID 1 occurs
  twice, first without a Severity and with 1 vehicle, then as Severe with 4 vehicles; the
  row emitted has VehiclesInvolved 1 from the first occurrence and SeverityScore 3 from
  the second, while the first occurrence alone gives SeverityScore 1. (DimLocation and
  DimDate are the tables the dimension builders return for this batch; the random source
  draws 0 each time.)
\<close>

theorem duplicate_accident_fields_mixed:
  "populate_fact_accidents
     [\<lparr>AccidentID = Some 1, ReportedAt = Some 1709649000000000000, Location = Some ''Main St'',
        VehiclesInvolved = Some 1, Severity = None\<rparr>,
      \<lparr>AccidentID = Some 1, ReportedAt = Some 1709649000000000000, Location = Some ''Main St'',
        VehiclesInvolved = Some 4, Severity = Some ''Severe''\<rparr>]
     [\<lparr>LocationID = 1, LocationName = Some ''Main St''\<rparr>]
     [\<lparr>DateID = 1, Date = Some 19787, Month = Some 3, Year = Some 2024,
        Time = Some 1709596800000000000\<rparr>]
     [] initial_engine (\<lambda>_. 0) =
   Inr (initial_engine\<lparr>Fact_Accidents :=
          [\<lparr>fact_AccidentID = 1, fact_DateID = Some 1, fact_LocationID = Some 1,
             fact_VehicleID = 1, fact_RoadConditionID = Some 1,
             fact_VehiclesInvolved = Some 1, SeverityScore = 3\<rparr>]\<rparr>, \<lambda>_. 0)
   \<and> populate_fact_accidents
     [\<lparr>AccidentID = Some 1, ReportedAt = Some 1709649000000000000, Location = Some ''Main St'',
        VehiclesInvolved = Some 1, Severity = None\<rparr>]
     [\<lparr>LocationID = 1, LocationName = Some ''Main St''\<rparr>]
     [\<lparr>DateID = 1, Date = Some 19787, Month = Some 3, Year = Some 2024,
        Time = Some 1709596800000000000\<rparr>]
     [] initial_engine (\<lambda>_. 0) =
   Inr (initial_engine\<lparr>Fact_Accidents :=
          [\<lparr>fact_AccidentID = 1, fact_DateID = Some 1, fact_LocationID = Some 1,
             fact_VehicleID = 1, fact_RoadConditionID = Some 1,
             fact_VehiclesInvolved = Some 1, SeverityScore = 1\<rparr>]\<rparr>, \<lambda>_. 0)"
  by (simp add: fact_defs)

subsection \<open>The nearest road condition\<close>

text \<open>
  When the road conditions are only the three records of the accident's own Location,
  labels and positions in the filtered frame agree and the nearest record (10 minutes
  before, ConditionID 30) is the one emitted.
\<close>

lemma closest_match_three_candidates:
  "populate_fact_accidents
     [\<lparr>AccidentID = Some 1, ReportedAt = Some 1709649000000000000, Location = Some ''Main St'',
        VehiclesInvolved = Some 2, Severity = Some ''Minor''\<rparr>]
     [\<lparr>LocationID = 1, LocationName = Some ''Main St''\<rparr>]
     [\<lparr>DateID = 1, Date = Some 19787, Month = Some 3, Year = Some 2024,
        Time = Some 1709596800000000000\<rparr>]
     [\<lparr>ConditionID = Some 20, cond_Location = Some ''Main St'',
        RecordedAt = Some 1709638200000000000, Surface = Some ''Dry'', Visibility = Some ''Clear''\<rparr>,
      \<lparr>ConditionID = Some 30, cond_Location = Some ''Main St'',
        RecordedAt = Some 1709648400000000000, Surface = Some ''Wet'', Visibility = Some ''Fog''\<rparr>,
      \<lparr>ConditionID = Some 40, cond_Location = Some ''Main St'',
        RecordedAt = Some 1709652600000000000, Surface = Some ''Icy'', Visibility = Some ''Clear''\<rparr>]
     initial_engine (\<lambda>_. 0) =
   Inr (initial_engine\<lparr>Fact_Accidents :=
          [\<lparr>fact_AccidentID = 1, fact_DateID = Some 1, fact_LocationID = Some 1,
             fact_VehicleID = 1, fact_RoadConditionID = Some 30,
             fact_VehiclesInvolved = Some 2, SeverityScore = 1\<rparr>]\<rparr>, \<lambda>_. 0)"
  by (simp add: fact_defs)

text \<open>
  Claim C2 says that, when some road condition has the accident's Location, the
  RoadConditionID emitted is that of a same-location record nearest in time. The source
  does not do that in general: \<^verbatim>\<open>time_diffs.idxmin()\<close> is the row label of the nearest
  record in the whole \<^verbatim>\<open>road_conditions_df\<close>, and \<^verbatim>\<open>matching_conditions.iloc[...]\<close>
  reads that label as a position in the filtered frame. Below, the accident is reported
  at 2024-03-05 14:30:00 on Main St; the road conditions are one record on Elm St
  followed by three on Main St, taken 3 hours before (ConditionID 20), 10 minutes before
  (30) and 1 hour after (40). The nearest record is 30, with label 2; position 2 of the
  filtered frame holds record 40, which is emitted. With the last two records in the
  other order the label is 3, no position of the filtered frame, and the run ends with
  an IndexError.
\<close>

theorem closest_match_reads_label_as_position:
  "populate_fact_accidents
     [\<lparr>AccidentID = Some 1, ReportedAt = Some 1709649000000000000, Location = Some ''Main St'',
        VehiclesInvolved = Some 2, Severity = Some ''Minor''\<rparr>]
     [\<lparr>LocationID = 1, LocationName = Some ''Main St''\<rparr>]
     [\<lparr>DateID = 1, Date = Some 19787, Month = Some 3, Year = Some 2024,
        Time = Some 1709596800000000000\<rparr>]
     [\<lparr>ConditionID = Some 10, cond_Location = Some ''Elm St'',
        RecordedAt = Some 1709649000000000000, Surface = Some ''Dry'', Visibility = Some ''Clear''\<rparr>,
      \<lparr>ConditionID = Some 20, cond_Location = Some ''Main St'',
        RecordedAt = Some 1709638200000000000, Surface = Some ''Dry'', Visibility = Some ''Clear''\<rparr>,
      \<lparr>ConditionID = Some 30, cond_Location = Some ''Main St'',
        RecordedAt = Some 1709648400000000000, Surface = Some ''Wet'', Visibility = Some ''Fog''\<rparr>,
      \<lparr>ConditionID = Some 40, cond_Location = Some ''Main St'',
        RecordedAt = Some 1709652600000000000, Surface = Some ''Icy'', Visibility = Some ''Clear''\<rparr>]
     initial_engine (\<lambda>_. 0) =
   Inr (initial_engine\<lparr>Fact_Accidents :=
          [\<lparr>fact_AccidentID = 1, fact_DateID = Some 1, fact_LocationID = Some 1,
             fact_VehicleID = 1, fact_RoadConditionID = Some 40,
             fact_VehiclesInvolved = Some 2, SeverityScore = 1\<rparr>]\<rparr>, \<lambda>_. 0)
   \<and> populate_fact_accidents
     [\<lparr>AccidentID = Some 1, ReportedAt = Some 1709649000000000000, Location = Some ''Main St'',
        VehiclesInvolved = Some 2, Severity = Some ''Minor''\<rparr>]
     [\<lparr>LocationID = 1, LocationName = Some ''Main St''\<rparr>]
     [\<lparr>DateID = 1, Date = Some 19787, Month = Some 3, Year = Some 2024,
        Time = Some 1709596800000000000\<rparr>]
     [\<lparr>ConditionID = Some 10, cond_Location = Some ''Elm St'',
        RecordedAt = Some 1709649000000000000, Surface = Some ''Dry'', Visibility = Some ''Clear''\<rparr>,
      \<lparr>ConditionID = Some 20, cond_Location = Some ''Main St'',
        RecordedAt = Some 1709638200000000000, Surface = Some ''Dry'', Visibility = Some ''Clear''\<rparr>,
      \<lparr>ConditionID = Some 40, cond_Location = Some ''Main St'',
        RecordedAt = Some 1709652600000000000, Surface = Some ''Icy'', Visibility = Some ''Clear''\<rparr>,
      \<lparr>ConditionID = Some 30, cond_Location = Some ''Main St'',
        RecordedAt = Some 1709648400000000000, Surface = Some ''Wet'', Visibility = Some ''Fog''\<rparr>]
     initial_engine (\<lambda>_. 0) = Inl IndexError"
  by (simp add: fact_defs)

section \<open>Timestamp normalisation and rows without a timestamp\<close>

text \<open>
  \<^verbatim>\<open>convert_timestamps\<close> returns a frame exactly when the column exists and the
  library call returns: the frame then holds what the call returned in that column and
  is unchanged elsewhere.
\<close>

lemma convert_timestamps_result:
  "convert_timestamps to_datetime df column = Inr df' \<longleftrightarrow>
     (\<exists>cells converted. df column = Some cells \<and> to_datetime cells = Inr converted
        \<and> df' = df(column \<mapsto> converted))"
  by (auto simp: convert_timestamps_def split: option.splits sum.splits)

lemma fact_accidents_data_all_skipped:
  "list_all (\<lambda>row. g_ReportedAt row = None \<or> g_Location row = None) rows \<Longrightarrow>
     fact_accidents_data road_conditions_df rows g = Inr ([], g)"
  by (induction rows) (simp_all add: fact_row_skip)

lemma populate_fact_accidents_all_skipped:
  "list_all (\<lambda>row. g_ReportedAt row = None \<or> g_Location row = None)
     (groupby_first (accidents_with_location accidents_df dim_location_df dim_date_df)) \<Longrightarrow>
   populate_fact_accidents accidents_df dim_location_df dim_date_df road_conditions_df eng g =
     Inl OperationalError"
  by (simp add: populate_fact_accidents_def fact_accidents_data_all_skipped)

text \<open>
  The dimension tables of the batch used below: one accident whose ReportedAt is missing.
\<close>

lemma unparseable_batch_dimensions:
  "populate_dim_location
     [\<lparr>AccidentID = Some 1, ReportedAt = None, Location = Some ''Main St'',
        VehiclesInvolved = Some 2, Severity = Some ''Minor''\<rparr>] initial_engine =
   Inr ([\<lparr>LocationID = 1, LocationName = Some ''Main St''\<rparr>],
        initial_engine\<lparr>Dim_Location := [\<lparr>LocationID = 1, LocationName = Some ''Main St''\<rparr>]\<rparr>)
   \<and> populate_dim_date
     [\<lparr>AccidentID = Some 1, ReportedAt = None, Location = Some ''Main St'',
        VehiclesInvolved = Some 2, Severity = Some ''Minor''\<rparr>] initial_engine =
   Inr ([\<lparr>DateID = 1, Date = None, Month = None, Year = None, Time = None\<rparr>],
        initial_engine\<lparr>Dim_Date :=
          [\<lparr>DateID = 1, Date = None, Month = None, Year = None, Time = None\<rparr>]\<rparr>)"
  by (simp add: populate_dim_location_def unique_def populate_dim_date_def drop_duplicates_def
      range1_def Let_def)

text \<open>
  Claim C10 says that unparseable timestamps become NaT instead of an error, and that
  this makes the fact builder skip the rows with an unparseable ReportedAt rather than
  abort the run. The loop does skip a row whose ReportedAt is missing (\<open>fact_row_skip\<close>),
  but when every row is skipped the run aborts all the same
  (\<open>populate_fact_accidents_all_skipped\<close>): the loop has emitted no row, and the write
  of the frame without columns raises. Below, the batch is the single accident whose
  ReportedAt could not be read: the loop ends normally with no row, and the run ends
  with an OperationalError.
\<close>

theorem unparseable_row_aborts_run:
  "fact_accidents_data []
     (groupby_first (accidents_with_location
        [\<lparr>AccidentID = Some 1, ReportedAt = None, Location = Some ''Main St'',
           VehiclesInvolved = Some 2, Severity = Some ''Minor''\<rparr>]
        [\<lparr>LocationID = 1, LocationName = Some ''Main St''\<rparr>]
        [\<lparr>DateID = 1, Date = None, Month = None, Year = None, Time = None\<rparr>]))
     (\<lambda>_. 0) = Inr ([], \<lambda>_. 0)
   \<and> populate_fact_accidents
     [\<lparr>AccidentID = Some 1, ReportedAt = None, Location = Some ''Main St'',
        VehiclesInvolved = Some 2, Severity = Some ''Minor''\<rparr>]
     [\<lparr>LocationID = 1, LocationName = Some ''Main St''\<rparr>]
     [\<lparr>DateID = 1, Date = None, Month = None, Year = None, Time = None\<rparr>]
     [] initial_engine (\<lambda>_. 0) = Inl OperationalError"
  by (simp add: fact_defs)

end
